theory Spec2Isabelle
  imports Main "HOL-Library.Sublist"
begin

section \<open>Request signing in satstac/utils.py\<close>

text \<open>
  The theory embeds \<^verbatim>\<open>get_s3_signed_url\<close> of \<^verbatim>\<open>satstac/utils.py\<close>.

  A Python \<^verbatim>\<open>str\<close> is represented by the bytes of its UTF-8 encoding, as a
  \<^typ>\<open>string\<close>; \<^verbatim>\<open>bytes\<close> values are strings too. On this representation
  \<^verbatim>\<open>s.encode('utf-8')\<close> is the identity, and the searches for the ASCII patterns
  of the source (\<^verbatim>\<open>'https://'\<close>, \<^verbatim>\<open>'.s3.amazonaws.com'\<close>, \<^verbatim>\<open>'/'\<close>) find the same
  occurrences on bytes as on code points. A \<^verbatim>\<open>str\<close> that holds a lone surrogate has
  no UTF-8 encoding and is not represented.
\<close>

type_synonym bytes = string

subsection \<open>The string operations of the Python library that the source calls\<close>

text \<open>
  \<^verbatim>\<open>s.replace(old, new)\<close>: scan from the left, replace every occurrence of
  \<^verbatim>\<open>old\<close> that does not overlap an earlier one. For the empty pattern Python puts
  \<^verbatim>\<open>new\<close> before every character and at the end.
\<close>

function replace :: "string \<Rightarrow> string \<Rightarrow> string \<Rightarrow> string" where
  "replace s old new =
     (if old = [] then new @ concat (map (\<lambda>c. c # new) s)
      else if s = [] then []
      else if prefix old s then new @ replace (drop (length old) s) old new
      else hd s # replace (tl s) old new)"
  by pat_completeness auto
termination
  by (relation "measure (\<lambda>(s, old, new). length s)") auto

declare replace.simps [simp del]

text \<open>
  \<^verbatim>\<open>s.split(sep)\<close> for a separator of one character, which is how the source calls
  it (\<^verbatim>\<open>split('/')\<close>): the result always has at least one element.
\<close>

fun split :: "string \<Rightarrow> char \<Rightarrow> string list" where
  "split [] sep = [[]]"
| "split (c # cs) sep =
     (if c = sep then [] # split cs sep
      else (case split cs sep of
              [] \<Rightarrow> [[c]]
            | p # ps \<Rightarrow> (c # p) # ps))"

text \<open>\<^verbatim>\<open>sep.join(parts)\<close>.\<close>

fun join :: "string \<Rightarrow> string list \<Rightarrow> string" where
  "join sep [] = []"
| "join sep [p] = p"
| "join sep (p # q # ps) = p @ sep @ join sep (q # ps)"

text \<open>\<^verbatim>\<open>s.encode('utf-8')\<close> on the representation above.\<close>

definition encode_utf8 :: "string \<Rightarrow> bytes" where
  "encode_utf8 s = s"

subsection \<open>hashlib and hmac\<close>

text \<open>
  The hash functions are library code: the model takes them as a parameter. Both return
  the raw digest; \<^verbatim>\<open>hexdigest()\<close> is the lower-case hexadecimal form of the digest.
\<close>

record hashlib =
  sha256 :: "bytes \<Rightarrow> bytes"
  hmac_sha256 :: "bytes \<Rightarrow> bytes \<Rightarrow> bytes"

definition hex_digit :: "nat \<Rightarrow> char" where
  "hex_digit n = ''0123456789abcdef'' ! n"

definition hexlify :: "bytes \<Rightarrow> string" where
  "hexlify bs = concat (map (\<lambda>b. [hex_digit (of_char b div 16), hex_digit (of_char b mod 16)]) bs)"

definition sha256_hexdigest :: "hashlib \<Rightarrow> bytes \<Rightarrow> string" where
  "sha256_hexdigest H msg = hexlify (sha256 H msg)"

definition hmac_sha256_hexdigest :: "hashlib \<Rightarrow> bytes \<Rightarrow> bytes \<Rightarrow> string" where
  "hmac_sha256_hexdigest H k msg = hexlify (hmac_sha256 H k msg)"

subsection \<open>datetime\<close>

record datetime =
  year :: nat
  month :: nat
  day :: nat
  hour :: nat
  minute :: nat
  second :: nat
  microsecond :: nat

definition digit :: "nat \<Rightarrow> char" where
  "digit n = ''0123456789'' ! n"

fun str_nat :: "nat \<Rightarrow> string" where
  "str_nat n = (if n < 10 then [digit n] else str_nat (n div 10) @ [digit (n mod 10)])"

declare str_nat.simps [simp del]

definition zfill :: "nat \<Rightarrow> string \<Rightarrow> string" where
  "zfill w s = replicate (w - length s) (CHR ''0'') @ s"

text \<open>The directives of \<^verbatim>\<open>strftime\<close> that the source uses; any other is left as it is.\<close>

definition directive :: "datetime \<Rightarrow> char \<Rightarrow> string" where
  "directive t d =
     (if d = CHR ''Y'' then zfill 4 (str_nat (year t))
      else if d = CHR ''m'' then zfill 2 (str_nat (month t))
      else if d = CHR ''d'' then zfill 2 (str_nat (day t))
      else if d = CHR ''H'' then zfill 2 (str_nat (hour t))
      else if d = CHR ''M'' then zfill 2 (str_nat (minute t))
      else if d = CHR ''S'' then zfill 2 (str_nat (second t))
      else [CHR ''%'', d])"

fun strftime :: "datetime \<Rightarrow> string \<Rightarrow> string" where
  "strftime t [] = []"
| "strftime t [c] = [c]"
| "strftime t (c # d # fmt) =
     (if c = CHR ''%'' then directive t d @ strftime t fmt
      else c # strftime t (d # fmt))"

subsection \<open>The process state: environment, clock and log\<close>

text \<open>
  \<^verbatim>\<open>os.environ\<close> is a map; the clock is the sequence of the values that successive
  calls of \<^verbatim>\<open>datetime.datetime.utcnow()\<close> return, with the number of calls made so
  far; \<^verbatim>\<open>debug_log\<close> holds the messages given to \<^verbatim>\<open>logger.debug\<close>.
\<close>

record world =
  environ :: "string \<rightharpoonup> string"
  utc_feed :: "nat \<Rightarrow> datetime"
  utc_reads :: nat
  debug_log :: "string list"

definition utcnow :: "world \<Rightarrow> datetime \<times> world" where
  "utcnow w = (utc_feed w (utc_reads w), w\<lparr>utc_reads := Suc (utc_reads w)\<rparr>)"

definition logger_debug :: "string \<Rightarrow> world \<Rightarrow> world" where
  "logger_debug msg w = w\<lparr>debug_log := debug_log w @ [msg]\<rparr>"

subsection \<open>get\_s3\_signed\_url\<close>

text \<open>
  \<^verbatim>\<open>parts[0]\<close> raises \<^verbatim>\<open>IndexError\<close> on an empty list; no other statement of
  the function raises on strings.
\<close>

datatype error = IndexError

text \<open>The nested helpers \<^verbatim>\<open>sign\<close> and \<^verbatim>\<open>getSignatureKey\<close>.\<close>

definition sign :: "hashlib \<Rightarrow> bytes \<Rightarrow> string \<Rightarrow> bytes" where
  "sign H k msg = hmac_sha256 H k (encode_utf8 msg)"

definition getSignatureKey :: "hashlib \<Rightarrow> string \<Rightarrow> string \<Rightarrow> string \<Rightarrow> string \<Rightarrow> bytes" where
  "getSignatureKey H k dateStamp regionName serviceName =
     (let kDate = sign H (encode_utf8 (''AWS4'' @ k)) dateStamp;
          kRegion = sign H kDate regionName;
          kService = sign H kRegion serviceName;
          kSigning = sign H kService ''aws4_request''
      in kSigning)"

text \<open>
  The local variables of one call that reaches the final \<^verbatim>\<open>return\<close>, under the
  names of the source (\<open>t_now\<close> is the source's \<^verbatim>\<open>t\<close>).
\<close>

record frame =
  access_key :: string
  secret_key :: string
  parts :: "string list"
  bucket :: string
  key :: string
  service :: string
  host :: string
  request_parameters :: string
  t_now :: datetime
  amzdate :: string
  datestamp :: string
  canonical_uri :: string
  canonical_querystring :: string
  payload_hash :: string
  canonical_headers :: string
  signed_headers :: string
  canonical_request :: string
  algorithm :: string
  credential_scope :: string
  string_to_sign :: string
  signing_key :: bytes
  signature :: string
  authorization_header :: string
  headers :: "(string \<times> string) list"
  request_url :: string

text \<open>
  The body of the function, statement by statement. The result is the error raised, or
  the frame at the final \<^verbatim>\<open>return\<close> (\<open>None\<close> at the early \<^verbatim>\<open>return url, None\<close>)
  with the process state the call leaves. The dictionary \<^verbatim>\<open>headers\<close> is the list of
  its items in insertion order.
\<close>

definition get_s3_signed_url_frame ::
  "hashlib \<Rightarrow> world \<Rightarrow> string \<Rightarrow> string \<Rightarrow> error + (frame option \<times> world)" where
  "get_s3_signed_url_frame H w url region =
     (let access_key = environ w ''AWS_ACCESS_KEY_ID'';
          secret_key = environ w ''AWS_SECRET_ACCESS_KEY''
      in if access_key = None \<or> secret_key = None then Inr (None, w)
      else
        let access_key = the access_key;
            secret_key = the secret_key;
            parts = split (replace url ''https://'' []) (CHR ''/'')
        in case parts of
             [] \<Rightarrow> Inl IndexError
           | parts0 # _ \<Rightarrow>
        let bucket = replace parts0 ''.s3.amazonaws.com'' [];
            key = join ''/'' (drop 1 parts);
            service = ''s3'';
            host = bucket @ ''.s3-'' @ region @ ''.amazonaws.com'';
            host = bucket @ ''.s3.amazonaws.com'';
            request_parameters = [];
            (t, w) = utcnow w;
            amzdate = strftime t ''%Y%m%dT%H%M%SZ'';
            datestamp = strftime t ''%Y%m%d'';
            canonical_uri = ''/'' @ key;
            canonical_querystring = request_parameters;
            payload_hash = ''UNSIGNED-PAYLOAD'';
            canonical_headers =
              ''host:'' @ host @ ''\<newline>x-amz-content-sha256:'' @ payload_hash
                @ ''\<newline>x-amz-date:'' @ amzdate
                @ ''\<newline>x-amz-request-payer:requester\<newline>'';
            signed_headers = ''host;x-amz-content-sha256;x-amz-date;x-amz-request-payer'';
            canonical_request =
              ''GET\<newline>'' @ canonical_uri @ ''\<newline>'' @ canonical_querystring
                @ ''\<newline>'' @ canonical_headers @ ''\<newline>'' @ signed_headers
                @ ''\<newline>'' @ payload_hash;
            algorithm = ''AWS4-HMAC-SHA256'';
            credential_scope =
              datestamp @ ''/'' @ region @ ''/'' @ service @ ''/'' @ ''aws4_request'';
            string_to_sign =
              algorithm @ ''\<newline>'' @ amzdate @ ''\<newline>'' @ credential_scope
                @ ''\<newline>'' @ sha256_hexdigest H (encode_utf8 canonical_request);
            signing_key = getSignatureKey H secret_key datestamp region service;
            signature = hmac_sha256_hexdigest H signing_key (encode_utf8 string_to_sign);
            authorization_header =
              algorithm @ '' '' @ ''Credential='' @ access_key @ ''/'' @ credential_scope
                @ '', '' @ ''SignedHeaders='' @ signed_headers @ '', ''
                @ ''Signature='' @ signature;
            headers =
              [(''x-amz-date'', amzdate), (''x-amz-content-sha256'', payload_hash),
               (''Authorization'', authorization_header),
               (''x-amz-request-payer'', ''requester'')];
            request_url = ''https://'' @ host @ canonical_uri;
            w = logger_debug (''Request URL = '' @ request_url) w
        in Inr (Some \<lparr>access_key = access_key, secret_key = secret_key, parts = parts,
                      bucket = bucket, key = key, service = service, host = host,
                      request_parameters = request_parameters, t_now = t,
                      amzdate = amzdate, datestamp = datestamp,
                      canonical_uri = canonical_uri,
                      canonical_querystring = canonical_querystring,
                      payload_hash = payload_hash, canonical_headers = canonical_headers,
                      signed_headers = signed_headers,
                      canonical_request = canonical_request, algorithm = algorithm,
                      credential_scope = credential_scope,
                      string_to_sign = string_to_sign, signing_key = signing_key,
                      signature = signature,
                      authorization_header = authorization_header, headers = headers,
                      request_url = request_url\<rparr>, w))"

text \<open>
  What the caller gets: \<^verbatim>\<open>(url, None)\<close> from the early return,
  \<^verbatim>\<open>(request_url, headers)\<close> from the final one.
\<close>

definition get_s3_signed_url ::
  "hashlib \<Rightarrow> world \<Rightarrow> string \<Rightarrow> string
     \<Rightarrow> error + ((string \<times> (string \<times> string) list option) \<times> world)" where
  "get_s3_signed_url H w url region =
     (case get_s3_signed_url_frame H w url region of
        Inl e \<Rightarrow> Inl e
      | Inr (None, w') \<Rightarrow> Inr ((url, None), w')
      | Inr (Some f, w') \<Rightarrow> Inr ((request_url f, Some (headers f)), w'))"

subsection \<open>A sample call\<close>

text \<open>
  The default of the parameter \<^verbatim>\<open>region\<close>, and the inputs of the known-answer test of
  the specification: access key \<^verbatim>\<open>AKIDEXAMPLE\<close>, secret key \<^verbatim>\<open>testsecret\<close>, bucket
  \<^verbatim>\<open>examplebucket\<close>, key \<^verbatim>\<open>test.txt\<close>, a clock that starts at 2023-01-01T00:00:00Z
  and advances by one second at each reading. \<open>toy_hashlib\<close> stands in for the hash
  functions where a theorem is applied to these inputs; the theorems themselves hold for
  every \<open>H\<close>.
\<close>

definition default_region :: string where
  "default_region = ''eu-central-1''"

definition example_url :: string where
  "example_url = ''https://examplebucket.s3.amazonaws.com/test.txt''"

definition example_world :: world where
  "example_world =
     \<lparr>environ = [''AWS_ACCESS_KEY_ID'' \<mapsto> ''AKIDEXAMPLE'',
                 ''AWS_SECRET_ACCESS_KEY'' \<mapsto> ''testsecret''],
      utc_feed = (\<lambda>n. \<lparr>year = 2023, month = 1, day = 1, hour = 0, minute = 0,
                          second = n, microsecond = 0\<rparr>),
      utc_reads = 0, debug_log = []\<rparr>"

definition toy_hashlib :: hashlib where
  "toy_hashlib = \<lparr>sha256 = (\<lambda>m. take 4 m), hmac_sha256 = (\<lambda>k m. take 2 k @ take 2 m)\<rparr>"

section \<open>Properties of the string operations\<close>

lemma split_not_Nil: "split s sep \<noteq> []"
  by (induction s) (auto split: list.splits)

lemma split_absent: "sep \<notin> set a \<Longrightarrow> split a sep = [a]"
  by (induction a) auto

lemma split_at_first: "sep \<notin> set a \<Longrightarrow> split (a @ sep # b) sep = a # split b sep"
  by (induction a) auto

lemma join_split: "join [sep] (split s sep) = s"
proof (induction s)
  case Nil
  then show ?case by simp
next
  case (Cons c cs)
  obtain p ps where sp: "split cs sep = p # ps"
    using split_not_Nil [of cs sep] by (cases "split cs sep") auto
  show ?case
  proof (cases "c = sep")
    case True
    then show ?thesis using Cons sp by simp
  next
    case False
    then show ?thesis using Cons sp by (cases ps) auto
  qed
qed

lemma replace_Nil: "replace [] old new = (if old = [] then new else [])"
  by (simp add: replace.simps)

lemma replace_Cons:
  "old \<noteq> [] \<Longrightarrow> replace (c # cs) old new =
     (if prefix old (c # cs) then new @ replace (drop (length old) (c # cs)) old new
      else c # replace cs old new)"
  by (subst replace.simps) simp

text \<open>The two equations that evaluate \<open>replace\<close> on a literal.\<close>

lemma replace_code:
  "replace [] (a # old) new = []"
  "replace (c # cs) (a # old) new =
     (if prefix (a # old) (c # cs)
      then new @ replace (drop (length (a # old)) (c # cs)) (a # old) new
      else c # replace cs (a # old) new)"
  by (simp_all add: replace_Nil replace_Cons)

lemma replace_absent: "old \<noteq> [] \<Longrightarrow> \<not> sublist old s \<Longrightarrow> replace s old new = s"
proof (induction s)
  case Nil
  then show ?case by (simp add: replace_Nil)
next
  case (Cons c cs)
  then show ?case by (auto simp: replace_Cons sublist_Cons_right)
qed

lemma replace_at_start: "old \<noteq> [] \<Longrightarrow> replace (old @ s) old new = new @ replace s old new"
  by (subst replace.simps) simp

lemma replace_skip:
  assumes "old \<noteq> []"
    and "\<And>ys. suffix ys x \<Longrightarrow> ys \<noteq> [] \<Longrightarrow> \<not> prefix old (ys @ rest)"
  shows "replace (x @ rest) old new = x @ replace rest old new"
  using assms(2)
proof (induction x)
  case Nil
  then show ?case by simp
next
  case (Cons c cs)
  have "\<not> prefix old ((c # cs) @ rest)"
    using Cons.prems [of "c # cs"] by simp
  moreover have "replace (cs @ rest) old new = cs @ replace rest old new"
    using Cons.prems by (intro Cons.IH) (auto simp: suffix_Cons)
  ultimately show ?case using assms(1) by (simp add: replace_Cons)
qed



section \<open>The frame of a signing call\<close>



section \<open>The claims\<close>



text \<open>
  C2. For every URL and region, when \<^verbatim>\<open>AWS_ACCESS_KEY_ID\<close> or
  \<^verbatim>\<open>AWS_SECRET_ACCESS_KEY\<close> (or both) is absent from the environment, the call raises
  nothing and returns the URL it was given, unchanged, with \<^verbatim>\<open>None\<close> for the headers.
  It neither reads the clock nor logs.
\<close>

theorem missing_credentials_unsigned:
  assumes "environ w ''AWS_ACCESS_KEY_ID'' = None \<or> environ w ''AWS_SECRET_ACCESS_KEY'' = None"
  shows "get_s3_signed_url H w url region = Inr ((url, None), w)"
  using assms by (auto simp: get_s3_signed_url_def get_s3_signed_url_frame_def)

theorem missing_credentials_unsigned_witness:
  "environ (example_world\<lparr>environ := [''AWS_ACCESS_KEY_ID'' \<mapsto> ''AKIDEXAMPLE'']\<rparr>)
       ''AWS_SECRET_ACCESS_KEY'' = None
   \<and> get_s3_signed_url toy_hashlib
        (example_world\<lparr>environ := [''AWS_ACCESS_KEY_ID'' \<mapsto> ''AKIDEXAMPLE'']\<rparr>)
        example_url default_region
     = Inr ((example_url, None),
            example_world\<lparr>environ := [''AWS_ACCESS_KEY_ID'' \<mapsto> ''AKIDEXAMPLE'']\<rparr>)"
  using missing_credentials_unsigned
    [where w = "example_world\<lparr>environ := [''AWS_ACCESS_KEY_ID'' \<mapsto> ''AKIDEXAMPLE'']\<rparr>"
      and H = toy_hashlib and url = example_url and region = default_region]
  by simp





end
